theory Spec2Isabelle
  imports Main
begin

section \<open>Data model of \<open>src/app/vector_search.py\<close>\<close>

text \<open>
  A Python \<open>str\<close> is modelled as a \<open>string\<close> whose elements stand for the code points of
  the Python string, so \<open>length\<close> and \<open>take\<close> count what \<open>len\<close> and slicing count.
  Metadata values are the scalars the index stores; \<open>py_str\<close> is their \<open>str()\<close>.
  A \<open>dict\<close> is an association list in insertion order (each key once); \<open>map_of\<close>
  is the lookup \<open>d[key]\<close> and \<open>map_of d key = None\<close> is \<open>key not in d\<close>.
\<close>

datatype pyval = PStr string | PInt int | PNone

record Document =
  page_content :: string
  metadata :: "(string \<times> pyval) list"

text \<open>
  An instance of Python's \<open>Exception\<close>: its class name and its message (\<open>str(e)\<close>).
  These are what \<open>except Exception\<close> catches; the interpreter's own signals
  (\<open>KeyboardInterrupt\<close>, \<open>SystemExit\<close>) are not errors of the program and are not
  modelled.
\<close>

datatype exn = PyException (exn_class: string) (exn_msg: string)

text \<open>
  The two output streams of the process. \<open>print(s)\<close> without a \<open>file\<close> argument
  writes to \<open>sys.stdout\<close>; nothing in the module writes to \<open>sys.stderr\<close>.
\<close>

record console =
  stdout :: "string list"
  stderr :: "string list"

definition print :: "string \<Rightarrow> console \<Rightarrow> console" where
  "print s con = con\<lparr>stdout := stdout con @ [s]\<rparr>"

subsection \<open>String primitives\<close>

definition NL :: string where
  "NL = [CHR 0x0A]"

text \<open>\<open>str(n)\<close> for a natural number: its decimal digits.\<close>

fun str_nat :: "nat \<Rightarrow> string" where
  "str_nat n =
     (if n < 10 then [''0123456789'' ! n]
      else str_nat (n div 10) @ [''0123456789'' ! (n mod 10)])"

declare str_nat.simps [simp del]

definition str_int :: "int \<Rightarrow> string" where
  "str_int i = (if i < 0 then ''-'' @ str_nat (nat (- i)) else str_nat (nat i))"

fun py_str :: "pyval \<Rightarrow> string" where
  "py_str (PStr s) = s"
| "py_str (PInt i) = str_int i"
| "py_str PNone = ''None''"

text \<open>\<open>sep.join(parts)\<close>.\<close>

fun py_join :: "string \<Rightarrow> string list \<Rightarrow> string" where
  "py_join sep [] = []"
| "py_join sep [x] = x"
| "py_join sep (x # y # ys) = x @ sep @ py_join sep (y # ys)"

text \<open>
  \<open>str.title()\<close> as CPython computes it: a character that follows a cased character is
  lower-cased, any other character is title-cased, and the flag becomes whether the
  character just read is cased. The case tables are those of ASCII (the field names of
  this repository are ASCII identifiers); every other character counts as uncased.
\<close>

definition ascii_lowercase :: string where
  "ascii_lowercase = ''abcdefghijklmnopqrstuvwxyz''"

definition ascii_uppercase :: string where
  "ascii_uppercase = ''ABCDEFGHIJKLMNOPQRSTUVWXYZ''"

definition to_upper :: "char \<Rightarrow> char" where
  "to_upper c = (case map_of (zip ascii_lowercase ascii_uppercase) c of Some u \<Rightarrow> u | None \<Rightarrow> c)"

definition to_lower :: "char \<Rightarrow> char" where
  "to_lower c = (case map_of (zip ascii_uppercase ascii_lowercase) c of Some l \<Rightarrow> l | None \<Rightarrow> c)"

definition is_cased :: "char \<Rightarrow> bool" where
  "is_cased c = (c \<in> set ascii_lowercase \<union> set ascii_uppercase)"

fun title_from :: "bool \<Rightarrow> string \<Rightarrow> string" where
  "title_from previous_is_cased [] = []"
| "title_from previous_is_cased (c # cs) =
     (if previous_is_cased then to_lower c else to_upper c) # title_from (is_cased c) cs"

definition title :: "string \<Rightarrow> string" where
  "title s = title_from False s"

text \<open>\<open>field.replace('_', ' ').title()\<close> (line 127).\<close>

definition display_field :: "string \<Rightarrow> string" where
  "display_field field = title (map (\<lambda>c. if c = CHR ''_'' then CHR '' '' else c) field)"

section \<open>\<open>format_chunk_results\<close> (lines 82-141)\<close>

definition default_fields :: "string list" where
  "default_fields =
     [''page_type'', ''primary_category'', ''subcategory'', ''title'',
      ''chunk_index'', ''total_chunks'', ''source'']"

text \<open>The inner loop of lines 122-128: one entry of \<open>metadata_lines\<close> per field found.\<close>

fun metadata_lines :: "(string \<times> pyval) list \<Rightarrow> string list \<Rightarrow> string list" where
  "metadata_lines md [] = []"
| "metadata_lines md (field # metadata_fields) =
     (case map_of md field of
        Some v \<Rightarrow> (display_field field @ '': '' @ py_str v) # metadata_lines md metadata_fields
      | None \<Rightarrow> metadata_lines md metadata_fields)"

text \<open>
  The slice \<open>content[:n]\<close>: a negative bound counts from the end of the string.
\<close>

definition slice_to :: "string \<Rightarrow> int \<Rightarrow> string" where
  "slice_to s n = (if 0 \<le> n then take (nat n) s else take (length s - nat (- n)) s)"

text \<open>
  Lines 135-137: the value of \<open>content\<close> that is appended. The test
  \<open>max_content_length and ...\<close> is false for \<open>None\<close> and for \<open>0\<close>.
\<close>

definition shown_content :: "int option \<Rightarrow> string \<Rightarrow> string" where
  "shown_content max_content_length content =
     (case max_content_length of
        None \<Rightarrow> content
      | Some n \<Rightarrow>
          if n = 0 then content
          else if n < int (length content) then slice_to content n @ ''...''
          else content)"

definition dashes :: string where
  "dashes = replicate 10 CHR ''-''"

text \<open>What one iteration of the loop of line 116 appends to \<open>output_parts\<close>.\<close>

definition chunk_parts :: "nat \<Rightarrow> Document \<Rightarrow> string list \<Rightarrow> bool \<Rightarrow> int option \<Rightarrow> string list" where
  "chunk_parts i doc metadata_fields include_content max_content_length =
     [NL @ ''Chunk '' @ str_nat i @ '':'', dashes,
      py_join NL (metadata_lines (metadata doc) metadata_fields)]
     @ (if include_content
        then [NL @ ''Content:'', dashes,
              shown_content max_content_length (page_content doc), dashes]
        else [])"

text \<open>The loop \<open>for i, doc in enumerate(documents, 1)\<close>, with \<open>output_parts\<close> threaded.\<close>

fun format_loop ::
  "nat \<Rightarrow> Document list \<Rightarrow> string list \<Rightarrow> bool \<Rightarrow> int option \<Rightarrow> string list \<Rightarrow> string list" where
  "format_loop i [] metadata_fields include_content max_content_length output_parts = output_parts"
| "format_loop i (doc # docs) metadata_fields include_content max_content_length output_parts =
     format_loop (Suc i) docs metadata_fields include_content max_content_length
       (output_parts @ chunk_parts i doc metadata_fields include_content max_content_length)"

text \<open>
  Line 111, \<open>metadata_fields or default_fields\<close>: \<open>None\<close> and the empty list are both
  false, so both are replaced by the defaults.
\<close>

definition fields_or_default :: "string list option \<Rightarrow> string list" where
  "fields_or_default metadata_fields =
     (case metadata_fields of
        None \<Rightarrow> default_fields
      | Some [] \<Rightarrow> default_fields
      | Some (f # fs) \<Rightarrow> f # fs)"

text \<open>The list \<open>output_parts\<close> when the loop has finished (lines 113-139).\<close>

definition output_parts ::
  "Document list \<Rightarrow> string list option \<Rightarrow> bool \<Rightarrow> int option \<Rightarrow> string list" where
  "output_parts documents metadata_fields include_content max_content_length =
     format_loop 1 documents (fields_or_default metadata_fields) include_content
       max_content_length
       [''Found '' @ str_nat (length documents) @ '' relevant chunks:'' @ NL]"

definition format_chunk_results ::
  "Document list \<Rightarrow> string list option \<Rightarrow> bool \<Rightarrow> int option \<Rightarrow> string" where
  "format_chunk_results documents metadata_fields include_content max_content_length =
     (if documents = [] then ''No results found.''
      else py_join NL
             (output_parts documents metadata_fields include_content max_content_length))"

section \<open>The index and \<open>search_similar_chunks\<close> (lines 47-79)\<close>

text \<open>
  The vector store is an object of the library class \<open>FAISS\<close>; this module only calls its
  method \<open>similarity_search(query, k, filter)\<close>. The object is therefore modelled by that
  method: a function that returns the documents found, or the exception it raises (the
  embedding request or the lookup failed). \<open>filter\<close> is \<open>None\<close> when the caller gives none.
  A filter is a dict from field names to the values asked for; a value is a scalar or a
  list of scalars.
\<close>

datatype filter_value = FScalar pyval | FList "pyval list"

type_synonym filter_dict = "(string \<times> filter_value) list"

type_synonym FAISS = "string \<Rightarrow> int \<Rightarrow> filter_dict option \<Rightarrow> exn + Document list"

text \<open>
  The expression \<open>vectorstore.similarity_search(...)\<close>. \<open>load_vectordb\<close> returns \<open>None\<close>
  when loading fails, and looking the method up on \<open>None\<close> raises \<open>AttributeError\<close>.
\<close>

definition similarity_search ::
  "FAISS option \<Rightarrow> string \<Rightarrow> int \<Rightarrow> filter_dict option \<Rightarrow> exn + Document list" where
  "similarity_search vectorstore query k flt =
     (case vectorstore of
        None \<Rightarrow> Inl (PyException ''AttributeError''
                 ([CHR 0x27] @ ''NoneType'' @ [CHR 0x27] @ '' object has no attribute ''
                  @ [CHR 0x27] @ ''similarity_search'' @ [CHR 0x27]))
      | Some index \<Rightarrow> index query k flt)"

text \<open>
  The whole body is inside \<open>try ... except Exception\<close>, so the function always returns a
  list. \<open>if filter_dict:\<close> is false for \<open>None\<close> and for the empty dict; in both cases the
  method is called without a filter.
\<close>

definition search_similar_chunks ::
  "FAISS option \<Rightarrow> string \<Rightarrow> int \<Rightarrow> filter_dict option \<Rightarrow> console
     \<Rightarrow> Document list \<times> console" where
  "search_similar_chunks vectorstore query k filter_dict con =
     (case (case filter_dict of
              None \<Rightarrow> similarity_search vectorstore query k None
            | Some [] \<Rightarrow> similarity_search vectorstore query k None
            | Some (c # cs) \<Rightarrow> similarity_search vectorstore query k (Some (c # cs))) of
        Inr similar_docs \<Rightarrow> (similar_docs, con)
      | Inl e \<Rightarrow> ([], print (''Error during similarity search: '' @ exn_msg e) con))"

section \<open>\<open>inspect_metadata\<close> (lines 144-167)\<close>

text \<open>
  The inner loop over \<open>doc.metadata.items()\<close> and the outer loop over \<open>sample_docs\<close>.
  \<open>metadata_summary\<close> maps a field to the set of values seen for it.
\<close>

fun add_items ::
  "(string \<times> pyval) list \<Rightarrow> (string \<rightharpoonup> pyval set) \<Rightarrow> (string \<rightharpoonup> pyval set)" where
  "add_items [] metadata_summary = metadata_summary"
| "add_items ((key, v) # items) metadata_summary =
     add_items items
       (case metadata_summary key of
          None \<Rightarrow> metadata_summary(key \<mapsto> {v})
        | Some seen \<Rightarrow> metadata_summary(key \<mapsto> insert v seen))"

fun add_docs :: "Document list \<Rightarrow> (string \<rightharpoonup> pyval set) \<Rightarrow> (string \<rightharpoonup> pyval set)" where
  "add_docs [] metadata_summary = metadata_summary"
| "add_docs (doc # sample_docs) metadata_summary =
     add_docs sample_docs (add_items (metadata doc) metadata_summary)"

text \<open>
  There is no \<open>try\<close> in this function: an exception of the search leaves it as raised.
\<close>

definition inspect_metadata ::
  "FAISS option \<Rightarrow> string \<Rightarrow> int \<Rightarrow> exn + (string \<rightharpoonup> pyval set)" where
  "inspect_metadata vectorstore sample_query sample_size =
     (case similarity_search vectorstore sample_query sample_size None of
        Inl e \<Rightarrow> Inl e
      | Inr sample_docs \<Rightarrow> Inr (add_docs sample_docs Map.empty))"

section \<open>\<open>load_vectordb\<close> (lines 17-44)\<close>

text \<open>
  The two library calls of the body are parameters: the constructor \<open>OpenAIEmbeddings\<close>
  (given the API key and the model name) and \<open>FAISS.load_local\<close> (given the folder and
  the embeddings). Each returns its object or the exception it raises. The API key is
  the module's global \<open>openai_api_key\<close>, read when the module is imported.
\<close>

record 'e library =
  OpenAIEmbeddings :: "string \<Rightarrow> string \<Rightarrow> exn + 'e"
  FAISS_load_local :: "string \<Rightarrow> 'e \<Rightarrow> exn + FAISS"

definition load_vectordb ::
  "'e library \<Rightarrow> string \<Rightarrow> string \<Rightarrow> string \<Rightarrow> console \<Rightarrow> FAISS option \<times> console" where
  "load_vectordb lib openai_api_key load_path model con =
     (case OpenAIEmbeddings lib openai_api_key model of
        Inl e \<Rightarrow> (None, print (''Error loading vector database: '' @ exn_msg e) con)
      | Inr embeddings \<Rightarrow>
          (case FAISS_load_local lib load_path embeddings of
             Inl e \<Rightarrow> (None, print (''Error loading vector database: '' @ exn_msg e) con)
           | Inr vectorstore \<Rightarrow> (Some vectorstore, con)))"

section \<open>What a valid index promises\<close>

text \<open>
  A passage satisfies a filter when its metadata holds, for every field of the filter,
  exactly the filter's value. The metadata values of a passage are scalars, so none of
  them equals a list.
\<close>

definition satisfies_filter :: "filter_dict \<Rightarrow> Document \<Rightarrow> bool" where
  "satisfies_filter f doc =
     list_all (\<lambda>(field, v). case v of
                  FScalar x \<Rightarrow> map_of (metadata doc) field = Some x
                | FList xs \<Rightarrow> False) f"

text \<open>
  The filtering is the library's, and it is not by exact equality. The test the index
  applies to a passage compares \<open>metadata.get(key)\<close>, which is \<open>None\<close> for a field the
  passage lacks, with the filter's value, and reads a list as the set of values allowed.
\<close>

definition metadata_get :: "(string \<times> pyval) list \<Rightarrow> string \<Rightarrow> pyval" where
  "metadata_get md key = (case map_of md key of None \<Rightarrow> PNone | Some v \<Rightarrow> v)"

fun value_matches :: "pyval \<Rightarrow> filter_value \<Rightarrow> bool" where
  "value_matches x (FScalar v) = (x = v)"
| "value_matches x (FList vs) = (x \<in> set vs)"

definition get_matches :: "filter_dict \<Rightarrow> Document \<Rightarrow> bool" where
  "get_matches f doc =
     list_all (\<lambda>(key, v). value_matches (metadata_get (metadata doc) key) v) f"

text \<open>The filter values for which the two readings agree: scalars other than \<open>None\<close>.\<close>

fun is_plain :: "filter_value \<Rightarrow> bool" where
  "is_plain (FScalar PNone) = False"
| "is_plain (FScalar x) = True"
| "is_plain (FList xs) = False"

definition plain_filter :: "filter_dict \<Rightarrow> bool" where
  "plain_filter f = list_all (\<lambda>(field, v). is_plain v) f"

text \<open>
  The ranking itself is the library's. An index over \<open>corpus\<close> with similarity \<open>score\<close>
  is valid when every answer to a positive \<open>k\<close> has at most \<open>k\<close> passages, all of the
  corpus, in non-increasing score; it filters by \<open>get\<close> when every answer to a filtered
  search passes the library's test.
\<close>

definition ranks_top_k ::
  "Document list \<Rightarrow> (string \<Rightarrow> Document \<Rightarrow> int) \<Rightarrow> FAISS \<Rightarrow> bool" where
  "ranks_top_k corpus score index =
     (\<forall>query k flt docs. 0 < k \<and> index query k flt = Inr docs \<longrightarrow>
        length docs \<le> nat k \<and> set docs \<subseteq> set corpus
        \<and> sorted_wrt (\<lambda>a b. score query b \<le> score query a) docs)"

definition filters_by_get :: "FAISS \<Rightarrow> bool" where
  "filters_by_get index =
     (\<forall>query k f docs. index query k (Some f) = Inr docs \<longrightarrow>
        list_all (get_matches f) docs)"

section \<open>Example objects\<close>

text \<open>
  An index held in memory, which ranks its corpus by a given score, keeps the passages
  that pass the library's filter test and returns the first \<open>k\<close>; an index whose embedding request
  fails; three passages; and a library whose only stored index is at \<open>data/vectordb\<close>.
  The theorems below are instantiated at these.
\<close>

definition memory_index :: "Document list \<Rightarrow> (string \<Rightarrow> Document \<Rightarrow> int) \<Rightarrow> FAISS" where
  "memory_index corpus score query k flt =
     (if k < 0 then Inl (PyException ''ValueError'' ''k must be non-negative'')
      else Inr (take (nat k)
             (filter (case flt of None \<Rightarrow> (\<lambda>doc. True) | Some f \<Rightarrow> get_matches f)
                (rev (sort_key (score query) corpus)))))"

definition unreachable_index :: FAISS where
  "unreachable_index query k flt = Inl (PyException ''APIConnectionError'' ''Connection error.'')"

definition overlap_score :: "string \<Rightarrow> Document \<Rightarrow> int" where
  "overlap_score query doc = int (length (filter (\<lambda>c. c \<in> set query) (page_content doc)))"

definition capstone_doc :: Document where
  "capstone_doc =
     \<lparr>page_content = ''The capstone project spans two quarters.'',
      metadata = [(''title'', PStr ''Capstone''), (''chunk_index'', PInt 0),
                  (''source'', PStr ''https://example.org/capstone'')]\<rparr>"

definition courses_doc :: Document where
  "courses_doc =
     \<lparr>page_content = ''Core courses'',
      metadata = [(''page_type'', PStr ''program''), (''title'', PStr ''Curriculum''),
                  (''chunk_index'', PInt 1)]\<rparr>"

definition admissions_doc :: Document where
  "admissions_doc =
     \<lparr>page_content = ''Admission requires transcripts.'',
      metadata = [(''page_type'', PStr ''admissions''), (''title'', PStr ''Apply'')]\<rparr>"

definition corpus3 :: "Document list" where
  "corpus3 = [courses_doc, admissions_doc, capstone_doc]"

definition example_library :: "string library" where
  "example_library =
     \<lparr>OpenAIEmbeddings = (\<lambda>openai_api_key model. Inr model),
      FAISS_load_local = (\<lambda>folder_path embeddings.
         if folder_path = ''data/vectordb'' then Inr (memory_index corpus3 overlap_score)
         else Inl (PyException ''RuntimeError''
                (''could not open '' @ folder_path
                 @ ''/index.faiss for reading: No such file or directory'')))\<rparr>"

definition no_output :: console where
  "no_output = \<lparr>stdout = [], stderr = []\<rparr>"

section \<open>The formatter's list of parts\<close>

lemma format_loop_acc:
  "format_loop i docs mf ic mcl acc =
     acc @ concat (map (\<lambda>(j, d). chunk_parts j d mf ic mcl) (zip [i ..< i + length docs] docs))"
proof (induction docs arbitrary: i acc)
  case Nil
  then show ?case by simp
next
  case (Cons d ds)
  have "[i ..< i + length (d # ds)] = i # [Suc i ..< Suc i + length ds]"
    by (simp add: upt_rec)
  then show ?case using Cons.IH [of "Suc i"] by simp
qed

lemma concat_nth_block:
  "\<forall>xs \<in> set xss. length xs = n \<Longrightarrow> k < length xss \<Longrightarrow> j < n \<Longrightarrow>
     concat xss ! (n * k + j) = xss ! k ! j"
proof (induction xss arbitrary: k)
  case Nil
  then show ?case by simp
next
  case (Cons xs xss)
  show ?case
  proof (cases k)
    case 0
    then show ?thesis using Cons.prems by (simp add: nth_append)
  next
    case (Suc k')
    have "n * k + j = n + (n * k' + j)" using Suc by (simp add: algebra_simps)
    then show ?thesis using Cons Suc by (simp add: nth_append)
  qed
qed

lemma length_chunk_parts:
  "length (chunk_parts i d mf ic mcl) = (if ic then 7 else 3)"
  by (simp add: chunk_parts_def)

text \<open>
  After the header, chunk \<open>k\<close> (counted from 0) owns a block of 7 parts when the content
  is included and of 3 parts otherwise.
\<close>

lemma output_parts_nth:
  assumes "k < length docs" and "j < (if ic then 7 else 3)"
  shows "output_parts docs mf ic mcl ! ((if ic then 7 else 3) * k + Suc j)
         = chunk_parts (Suc k) (docs ! k) (fields_or_default mf) ic mcl ! j"
proof -
  let ?n = "if ic then 7 else 3 :: nat"
  let ?blocks = "map (\<lambda>(j, d). chunk_parts j d (fields_or_default mf) ic mcl)
                   (zip [1 ..< 1 + length docs] docs)"
  have len: "\<forall>xs \<in> set ?blocks. length xs = ?n"
    by (auto simp: length_chunk_parts)
  have k: "k < length ?blocks" using assms(1) by simp
  have "output_parts docs mf ic mcl ! (?n * k + Suc j) = concat ?blocks ! (?n * k + j)"
    by (simp add: output_parts_def format_loop_acc)
  also have "\<dots> = ?blocks ! k ! j"
    using concat_nth_block [OF len k] assms(2) by simp
  also have "?blocks ! k = chunk_parts (Suc k) (docs ! k) (fields_or_default mf) ic mcl"
    using assms(1) by (simp del: upt_Suc)
  finally show ?thesis .
qed

lemma metadata_lines_map_filter:
  "metadata_lines md fs =
     List.map_filter
       (\<lambda>f. map_option (\<lambda>v. display_field f @ '': '' @ py_str v) (map_of md f)) fs"
  by (induction fs) (auto simp: List.map_filter_simps split: option.splits)

section \<open>Properties of the formatter\<close>

text \<open>
  C6. Whatever the other three parameters are, formatting the empty passage list gives
  the fixed sentinel \<open>No results found.\<close>, which is not the empty string.
\<close>

theorem format_chunk_results_empty:
  "format_chunk_results [] metadata_fields include_content max_content_length
     = ''No results found.''
   \<and> format_chunk_results [] metadata_fields include_content max_content_length \<noteq> []"
  by (simp add: format_chunk_results_def)

text \<open>
  For a positive limit \<open>n\<close> and with the content included, the report is the join of the
  parts, and the content part of passage \<open>i\<close> is the first \<open>n\<close> characters of its text
  followed by \<open>...\<close> when the text is longer than \<open>n\<close>, and the whole text otherwise;
  with no limit the report is again the join of the parts and the content part is the
  whole text.
\<close>

lemma format_chunk_results_positive_limit:
  assumes "i < length documents" and "0 < n"
  shows "format_chunk_results documents metadata_fields True (Some n)
           = py_join NL (output_parts documents metadata_fields True (Some n))
       \<and> output_parts documents metadata_fields True (Some n) ! (7 * i + 6)
           = (if n < int (length (page_content (documents ! i)))
              then take (nat n) (page_content (documents ! i)) @ ''...''
              else page_content (documents ! i))
       \<and> format_chunk_results documents metadata_fields True None
           = py_join NL (output_parts documents metadata_fields True None)
       \<and> output_parts documents metadata_fields True None ! (7 * i + 6)
           = page_content (documents ! i)"
proof -
  have ne: "documents \<noteq> []" using assms(1) by auto
  have idx: "7 * i + 6 = (if True then 7 else 3) * i + Suc 5" by simp
  have part: "output_parts documents metadata_fields True m ! (7 * i + 6)
        = shown_content m (page_content (documents ! i))" for m
    unfolding idx
    by (subst output_parts_nth) (use assms(1) in \<open>simp_all add: chunk_parts_def\<close>)
  show ?thesis
    using ne assms(2)
    by (simp add: part format_chunk_results_def shown_content_def slice_to_def)
qed

lemma format_chunk_results_positive_limit_example:
  "output_parts [capstone_doc, courses_doc] None True (Some 12) ! 6 = ''The capstone...''
   \<and> output_parts [capstone_doc, courses_doc] None True (Some 12) ! 13 = ''Core courses''
   \<and> output_parts [capstone_doc, courses_doc] None True None ! 6
       = ''The capstone project spans two quarters.''"
  using format_chunk_results_positive_limit [of 0 "[capstone_doc, courses_doc]" 12 None]
    format_chunk_results_positive_limit [of 1 "[capstone_doc, courses_doc]" 12 None]
  by (simp add: capstone_doc_def courses_doc_def)

text \<open>
  C5. The claim does not hold of the code at the limit 0. The docstring calls the
  parameter the maximum length of content to display, with \<open>None\<close> for the full content,
  but the test of line 136 is false for 0 as it is for \<open>None\<close>: the text \<open>abcdef\<close>
  exceeds the limit 0, and the report holds the whole text and no ellipsis.
\<close>

theorem format_chunk_results_zero_limit:
  "0 < int (length (page_content \<lparr>page_content = ''abcdef'', metadata = []\<rparr>))
   \<and> format_chunk_results [\<lparr>page_content = ''abcdef'', metadata = []\<rparr>] None True (Some 0)
       = ''Found 1 relevant chunks:'' @ NL @ NL @ NL @ ''Chunk 1:'' @ NL @ ''----------'' @ NL
         @ NL @ NL @ ''Content:'' @ NL @ ''----------'' @ NL @ ''abcdef'' @ NL @ ''----------''"
  by (simp add: format_chunk_results_def output_parts_def fields_or_default_def
      default_fields_def chunk_parts_def shown_content_def dashes_def NL_def str_nat.simps
      numeral_eq_Suc)

text \<open>
  C7, as amended. For a non-empty list of field names, the metadata part of passage \<open>i\<close>
  is the join of one line per field of the list that the passage's metadata holds, in
  the order of the list; a field the passage lacks contributes nothing.
\<close>

theorem format_chunk_results_fields:
  assumes "i < length documents" and "metadata_fields \<noteq> []"
  shows "format_chunk_results documents (Some metadata_fields) include_content max_content_length
           = py_join NL (output_parts documents (Some metadata_fields) include_content
                           max_content_length)
       \<and> output_parts documents (Some metadata_fields) include_content max_content_length
           ! ((if include_content then 7 else 3) * i + 3)
         = py_join NL
             (List.map_filter
                (\<lambda>field. map_option (\<lambda>v. display_field field @ '': '' @ py_str v)
                   (map_of (metadata (documents ! i)) field))
                metadata_fields)"
proof -
  have ne: "documents \<noteq> []" using assms(1) by auto
  have eff: "fields_or_default (Some metadata_fields) = metadata_fields"
    using assms(2) by (cases metadata_fields) (simp_all add: fields_or_default_def)
  have "output_parts documents (Some metadata_fields) include_content max_content_length
           ! ((if include_content then 7 else 3) * i + 3)
        = py_join NL (metadata_lines (metadata (documents ! i)) metadata_fields)"
    using output_parts_nth [of i documents 2 include_content "Some metadata_fields"
        max_content_length] assms(1)
    by (simp add: chunk_parts_def eff)
  then show ?thesis
    using ne by (simp add: format_chunk_results_def metadata_lines_map_filter)
qed

theorem format_chunk_results_fields_witness:
  "(1::nat) < length [capstone_doc, courses_doc] \<and> [''source'', ''page_type'', ''title''] \<noteq> []
   \<and> output_parts [capstone_doc, courses_doc] (Some [''source'', ''page_type'', ''title''])
        False None ! 3
       = ''Source: https://example.org/capstone'' @ NL @ ''Title: Capstone''
   \<and> output_parts [capstone_doc, courses_doc] (Some [''source'', ''page_type'', ''title''])
        False None ! 6
       = ''Page Type: program'' @ NL @ ''Title: Curriculum''"
  using format_chunk_results_fields [of 0 "[capstone_doc, courses_doc]"
      "[''source'', ''page_type'', ''title'']" False None]
    format_chunk_results_fields [of 1 "[capstone_doc, courses_doc]"
      "[''source'', ''page_type'', ''title'']" False None]
  by (simp add: capstone_doc_def courses_doc_def List.map_filter_simps display_field_def NL_def
      title_def to_upper_def to_lower_def is_cased_def ascii_lowercase_def ascii_uppercase_def)

text \<open>
  The claim as stated fails at the empty list: no field is named, and the report still
  has a \<open>Title\<close> line.
\<close>

theorem format_chunk_results_empty_fields_counterexample:
  "format_chunk_results [\<lparr>page_content = ''x'', metadata = [(''title'', PStr ''T'')]\<rparr>]
      (Some []) False None
     = ''Found 1 relevant chunks:'' @ NL @ NL @ NL @ ''Chunk 1:'' @ NL @ ''----------'' @ NL
       @ ''Title: T''"
  by (simp add: format_chunk_results_def output_parts_def fields_or_default_def
      default_fields_def chunk_parts_def dashes_def NL_def str_nat.simps
      numeral_eq_Suc display_field_def
      title_def to_upper_def to_lower_def is_cased_def ascii_lowercase_def ascii_uppercase_def)

text \<open>
  C9. For a non-empty document list, the empty field list gives the same report as the
  list of the seven default fields, and the metadata part of every passage \<open>i\<close> is made
  of the lines of those seven fields.
\<close>

theorem format_chunk_results_default_fields:
  assumes "i < length documents"
  shows "format_chunk_results documents (Some []) include_content max_content_length
           = format_chunk_results documents
               (Some [''page_type'', ''primary_category'', ''subcategory'', ''title'',
                      ''chunk_index'', ''total_chunks'', ''source''])
               include_content max_content_length
       \<and> output_parts documents (Some []) include_content max_content_length
           ! ((if include_content then 7 else 3) * i + 3)
         = py_join NL
             (metadata_lines (metadata (documents ! i))
                [''page_type'', ''primary_category'', ''subcategory'', ''title'',
                 ''chunk_index'', ''total_chunks'', ''source''])"
proof -
  have "output_parts documents (Some []) include_content max_content_length
           ! ((if include_content then 7 else 3) * i + 3)
        = py_join NL (metadata_lines (metadata (documents ! i)) default_fields)"
    using output_parts_nth [of i documents 2 include_content "Some []" max_content_length]
      assms(1)
    by (simp add: chunk_parts_def fields_or_default_def)
  then show ?thesis
    by (simp add: format_chunk_results_def output_parts_def fields_or_default_def
        default_fields_def)
qed

theorem format_chunk_results_default_fields_witness:
  "(0::nat) < length [courses_doc]
   \<and> format_chunk_results [courses_doc] (Some []) False None
       = ''Found 1 relevant chunks:'' @ NL @ NL @ NL @ ''Chunk 1:'' @ NL @ ''----------'' @ NL
         @ ''Page Type: program'' @ NL @ ''Title: Curriculum'' @ NL @ ''Chunk Index: 1''
   \<and> output_parts [courses_doc] (Some []) False None ! 3
       = ''Page Type: program'' @ NL @ ''Title: Curriculum'' @ NL @ ''Chunk Index: 1''"
  using format_chunk_results_default_fields [of 0 "[courses_doc]" False None]
  by (simp add: courses_doc_def format_chunk_results_def output_parts_def fields_or_default_def
      default_fields_def chunk_parts_def dashes_def NL_def str_nat.simps str_int_def
      numeral_eq_Suc display_field_def
      title_def to_upper_def to_lower_def is_cased_def ascii_lowercase_def ascii_uppercase_def)

section \<open>The example index is valid\<close>

lemma memory_index_ranks: "ranks_top_k corpus score (memory_index corpus score)"
proof -
  have "sorted_wrt (\<lambda>a b. score query b \<le> score query a) (rev (sort_key (score query) corpus))"
    for query
    using sorted_sort_key [of "score query" corpus]
    by (simp add: sorted_wrt_rev sorted_map)
  then show ?thesis
    unfolding ranks_top_k_def memory_index_def
    by (auto split: if_splits intro!: sorted_wrt_take sorted_wrt_filter dest: in_set_takeD)
qed

lemma memory_index_filters_by_get: "filters_by_get (memory_index corpus score)"
  unfolding filters_by_get_def memory_index_def
  by (auto simp: list_all_iff split: if_splits dest: in_set_takeD)

text \<open>
  For a scalar other than \<open>None\<close>, \<open>metadata.get(key) == value\<close> holds only if the
  passage has the field, with exactly that value.
\<close>

lemma plain_value_exact:
  "is_plain v \<Longrightarrow> value_matches (metadata_get md key) v \<Longrightarrow>
     (case v of FScalar x \<Rightarrow> map_of md key = Some x | FList xs \<Rightarrow> False)"
  by (cases v rule: is_plain.cases) (auto simp: metadata_get_def split: option.splits)

lemma plain_filter_exact:
  "plain_filter f \<Longrightarrow> get_matches f doc \<Longrightarrow> satisfies_filter f doc"
  unfolding plain_filter_def get_matches_def satisfies_filter_def list_all_iff
  by (auto dest!: bspec intro: plain_value_exact)

section \<open>Properties of the search\<close>

text \<open>
  What the function returns is the empty list or, untouched, the list the index gave
  for the filter that was passed on.
\<close>

lemma search_similar_chunks_cases:
  "search_similar_chunks vectorstore query k filter_dict con = (docs, con') \<Longrightarrow>
     docs = [] \<or> similarity_search vectorstore query k
               (if filter_dict = Some [] then None else filter_dict) = Inr docs"
  by (auto simp: search_similar_chunks_def split: option.splits list.splits sum.splits)

text \<open>
  C1. For a valid index over a corpus, a query and a positive \<open>k\<close>, with or without a
  filter, the passages returned are at most \<open>k\<close>, each is an element of the corpus as
  it stands there, and they are in non-increasing order of similarity score.
\<close>

theorem search_similar_chunks_top_k:
  assumes "ranks_top_k corpus score index" and "0 < k"
  shows "length (fst (search_similar_chunks (Some index) query k filter_dict con)) \<le> nat k
       \<and> set (fst (search_similar_chunks (Some index) query k filter_dict con)) \<subseteq> set corpus
       \<and> sorted_wrt (\<lambda>a b. score query b \<le> score query a)
           (fst (search_similar_chunks (Some index) query k filter_dict con))"
proof -
  obtain docs con'
    where r: "search_similar_chunks (Some index) query k filter_dict con = (docs, con')"
    by (cases "search_similar_chunks (Some index) query k filter_dict con")
  from search_similar_chunks_cases [OF r]
  consider "docs = []" | flt where "index query k flt = Inr docs"
    by (auto simp: similarity_search_def)
  then show ?thesis
  proof cases
    case 1
    then show ?thesis using r by simp
  next
    case 2
    then show ?thesis using assms r unfolding ranks_top_k_def by fastforce
  qed
qed

theorem search_similar_chunks_top_k_witness:
  "ranks_top_k corpus3 overlap_score (memory_index corpus3 overlap_score) \<and> (0::int) < 2
   \<and> fst (search_similar_chunks (Some (memory_index corpus3 overlap_score))
            ''capstone project'' 2 None no_output) = [capstone_doc, admissions_doc]
   \<and> length [capstone_doc, admissions_doc] \<le> nat 2
   \<and> set [capstone_doc, admissions_doc] \<subseteq> set corpus3
   \<and> sorted_wrt (\<lambda>a b. overlap_score ''capstone project'' b \<le> overlap_score ''capstone project'' a)
        [capstone_doc, admissions_doc]"
proof -
  have valid: "ranks_top_k corpus3 overlap_score (memory_index corpus3 overlap_score)"
    by (rule memory_index_ranks)
  have result: "fst (search_similar_chunks (Some (memory_index corpus3 overlap_score))
            ''capstone project'' 2 None no_output) = [capstone_doc, admissions_doc]"
    by (simp add: search_similar_chunks_def similarity_search_def memory_index_def
        overlap_score_def corpus3_def courses_doc_def capstone_doc_def admissions_doc_def)
  show ?thesis
    using search_similar_chunks_top_k [OF valid, of 2 "''capstone project''" None no_output]
      valid
    by (simp add: result)
qed

text \<open>
  C2, as amended. For an index that filters as the library does and every filter whose
  values are scalars other than \<open>None\<close>, each passage returned holds, for every field
  of the filter, exactly the filter's value. The function itself filters nothing: a
  non-empty filter goes to the index as it is, and the index's answer comes back as it
  is, or as the empty list after an error.
\<close>

theorem search_similar_chunks_filter:
  assumes "filters_by_get index" and "plain_filter f"
  shows "list_all (satisfies_filter f)
           (fst (search_similar_chunks (Some index) query k (Some f) con))
       \<and> fst (search_similar_chunks (Some index) query k (Some (c # cs)) con)
           = (case index query k (Some (c # cs)) of Inr docs \<Rightarrow> docs | Inl e \<Rightarrow> [])"
proof -
  have passed: "fst (search_similar_chunks (Some index) query k (Some (c # cs)) con)
           = (case index query k (Some (c # cs)) of Inr docs \<Rightarrow> docs | Inl e \<Rightarrow> [])"
    by (simp add: search_similar_chunks_def similarity_search_def split: sum.splits)
  have "list_all (satisfies_filter f)
           (fst (search_similar_chunks (Some index) query k (Some f) con))"
  proof (cases f)
    case Nil
    then show ?thesis by (simp add: satisfies_filter_def list_all_iff)
  next
    case (Cons d ds)
    have "list_all (get_matches f)
           (fst (search_similar_chunks (Some index) query k (Some f) con))"
      using assms(1) Cons unfolding filters_by_get_def
      by (auto simp: search_similar_chunks_def similarity_search_def split: sum.splits)
    then show ?thesis
      using assms(2) by (auto simp: list_all_iff intro: plain_filter_exact)
  qed
  then show ?thesis using passed by simp
qed

theorem search_similar_chunks_filter_witness:
  "filters_by_get (memory_index corpus3 overlap_score)
   \<and> plain_filter [(''title'', FScalar (PStr ''Curriculum''))]
   \<and> fst (search_similar_chunks (Some (memory_index corpus3 overlap_score))
            ''capstone project'' 2 (Some [(''title'', FScalar (PStr ''Curriculum''))]) no_output)
       = [courses_doc]
   \<and> list_all (satisfies_filter [(''title'', FScalar (PStr ''Curriculum''))]) [courses_doc]"
proof -
  have valid: "filters_by_get (memory_index corpus3 overlap_score)"
    by (rule memory_index_filters_by_get)
  have plain: "plain_filter [(''title'', FScalar (PStr ''Curriculum''))]"
    by (simp add: plain_filter_def)
  have result: "fst (search_similar_chunks (Some (memory_index corpus3 overlap_score))
            ''capstone project'' 2 (Some [(''title'', FScalar (PStr ''Curriculum''))]) no_output)
       = [courses_doc]"
    by (simp add: search_similar_chunks_def similarity_search_def memory_index_def
        overlap_score_def corpus3_def courses_doc_def capstone_doc_def admissions_doc_def
        get_matches_def metadata_get_def)
  show ?thesis
    using search_similar_chunks_filter [OF valid plain, where query = "''capstone project''"
        and k = 2 and con = no_output and c = "(''title'', FScalar (PStr ''Curriculum''))"
        and cs = "[]", THEN conjunct1]
      valid plain
    by (simp add: result)
qed

text \<open>
  The claim as stated fails for a filter value \<open>None\<close> and for a list. Asked for
  \<open>page_type\<close> equal to \<open>None\<close>, the index returns the passage that has no \<open>page_type\<close>
  at all; asked for a \<open>title\<close> among two, it returns passages whose title is one of
  them and so is not equal to the list.
\<close>

theorem search_similar_chunks_filter_counterexample:
  "fst (search_similar_chunks (Some (memory_index corpus3 overlap_score))
          ''capstone project'' 1 (Some [(''page_type'', FScalar PNone)]) no_output)
     = [capstone_doc]
   \<and> map_of (metadata capstone_doc) ''page_type'' = None
   \<and> \<not> satisfies_filter [(''page_type'', FScalar PNone)] capstone_doc
   \<and> fst (search_similar_chunks (Some (memory_index corpus3 overlap_score))
          ''capstone project'' 3
          (Some [(''title'', FList [PStr ''Capstone'', PStr ''Apply''])]) no_output)
     = [capstone_doc, admissions_doc]
   \<and> \<not> satisfies_filter [(''title'', FList [PStr ''Capstone'', PStr ''Apply''])] capstone_doc"
  by (simp add: search_similar_chunks_def similarity_search_def memory_index_def
      overlap_score_def corpus3_def courses_doc_def capstone_doc_def admissions_doc_def
      get_matches_def metadata_get_def satisfies_filter_def)

text \<open>
  C3. Whenever the search that the function performs raises an error, be it from the
  embedding, from the lookup or because the handle is \<open>None\<close>, the function returns the
  empty list and has printed one line with the error's message; it returns a list on
  every input.
\<close>

theorem search_similar_chunks_catches:
  assumes "similarity_search vectorstore query k
             (if filter_dict = Some [] then None else filter_dict) = Inl e"
  shows "search_similar_chunks vectorstore query k filter_dict con
           = ([], con\<lparr>stdout := stdout con @ [''Error during similarity search: '' @ exn_msg e]\<rparr>)"
  using assms
  by (auto simp: search_similar_chunks_def print_def split: option.splits list.splits)

theorem search_similar_chunks_catches_witness:
  "similarity_search (Some unreachable_index) ''capstone project'' 5 None
     = Inl (PyException ''APIConnectionError'' ''Connection error.'')
   \<and> search_similar_chunks (Some unreachable_index) ''capstone project'' 5 None no_output
     = ([], \<lparr>stdout = [''Error during similarity search: Connection error.''], stderr = []\<rparr>)
   \<and> fst (search_similar_chunks None ''capstone project'' 5 None no_output) = []"
proof -
  have raised: "similarity_search (Some unreachable_index) ''capstone project'' 5
      (if None = Some [] then None else None)
     = Inl (PyException ''APIConnectionError'' ''Connection error.'')"
    by (simp add: similarity_search_def unreachable_index_def)
  have absent: "similarity_search None ''capstone project'' 5
      (if None = Some [] then None else None)
     = Inl (PyException ''AttributeError''
                 ([CHR 0x27] @ ''NoneType'' @ [CHR 0x27] @ '' object has no attribute ''
                  @ [CHR 0x27] @ ''similarity_search'' @ [CHR 0x27]))"
    by (simp add: similarity_search_def)
  show ?thesis
    using search_similar_chunks_catches [OF raised, of no_output]
      search_similar_chunks_catches [OF absent, of no_output] raised
    by (simp add: no_output_def)
qed

text \<open>
  C10. The empty filter gives the same result as no filter, and that result is the one
  of a search to which no filter is passed.
\<close>

theorem search_similar_chunks_empty_filter:
  "search_similar_chunks vectorstore query k (Some []) con
     = search_similar_chunks vectorstore query k None con
   \<and> search_similar_chunks vectorstore query k (Some []) con
     = (case similarity_search vectorstore query k None of
          Inr similar_docs \<Rightarrow> (similar_docs, con)
        | Inl e \<Rightarrow> ([], print (''Error during similarity search: '' @ exn_msg e) con))"
  by (simp add: search_similar_chunks_def)

section \<open>Properties of the loader\<close>

text \<open>
  C4, as amended. When the construction of the embeddings or the loading of the index
  raises an error, the function returns \<open>None\<close> and has printed one line with the
  error's message on standard output; standard error is left as it was.
\<close>

theorem load_vectordb_failure:
  assumes "OpenAIEmbeddings lib openai_api_key model = Inl e
           \<or> (\<exists>embeddings. OpenAIEmbeddings lib openai_api_key model = Inr embeddings
                \<and> FAISS_load_local lib load_path embeddings = Inl e)"
  shows "load_vectordb lib openai_api_key load_path model con
           = (None, con\<lparr>stdout := stdout con @ [''Error loading vector database: '' @ exn_msg e]\<rparr>)
       \<and> stderr (snd (load_vectordb lib openai_api_key load_path model con)) = stderr con"
  using assms by (auto simp: load_vectordb_def print_def)

theorem load_vectordb_failure_witness:
  "(\<exists>embeddings.
       OpenAIEmbeddings example_library ''sk-test'' ''text-embedding-3-small'' = Inr embeddings
       \<and> FAISS_load_local example_library ''/no/such/dir'' embeddings
           = Inl (PyException ''RuntimeError''
               ''could not open /no/such/dir/index.faiss for reading: No such file or directory''))
   \<and> load_vectordb example_library ''sk-test'' ''/no/such/dir'' ''text-embedding-3-small''
        no_output
       = (None,
          \<lparr>stdout = [''Error loading vector database: could not open /no/such/dir/index.faiss for reading: No such file or directory''],
           stderr = []\<rparr>)"
proof -
  have raised: "\<exists>embeddings.
       OpenAIEmbeddings example_library ''sk-test'' ''text-embedding-3-small'' = Inr embeddings
       \<and> FAISS_load_local example_library ''/no/such/dir'' embeddings
           = Inl (PyException ''RuntimeError''
               ''could not open /no/such/dir/index.faiss for reading: No such file or directory'')"
    by (simp add: example_library_def)
  show ?thesis
    using load_vectordb_failure [OF disjI2, OF raised, of no_output] raised
    by (simp add: no_output_def)
qed

text \<open>
  The claim as stated fails on the stream: loading from a folder that does not exist
  returns \<open>None\<close> and leaves standard error empty; the line is on standard output.
\<close>

theorem load_vectordb_stderr_counterexample:
  "fst (load_vectordb example_library ''sk-test'' ''/no/such/dir'' ''text-embedding-3-small''
          no_output) = None
   \<and> stderr (snd (load_vectordb example_library ''sk-test'' ''/no/such/dir''
                    ''text-embedding-3-small'' no_output)) = []
   \<and> stdout (snd (load_vectordb example_library ''sk-test'' ''/no/such/dir''
                    ''text-embedding-3-small'' no_output))
     = [''Error loading vector database: could not open /no/such/dir/index.faiss for reading: No such file or directory'']"
  by (simp add: load_vectordb_def example_library_def print_def no_output_def)

section \<open>Properties of the metadata inspector\<close>

text \<open>
  When the sample search returns, the summary holds exactly the fields of the passages
  returned, each with the set of the values seen for it.
\<close>

lemma add_items_lookup:
  "add_items items m key =
     (if key \<in> fst ` set items
      then Some ((case m key of None \<Rightarrow> {} | Some seen \<Rightarrow> seen) \<union> {v. (key, v) \<in> set items})
      else m key)"
proof (induction items arbitrary: m)
  case Nil
  then show ?case by simp
next
  case (Cons kv items)
  obtain k v where kv: "kv = (k, v)" by (cases kv)
  show ?case
    unfolding kv by (cases "m k") (auto simp: Cons.IH image_iff split: option.splits)
qed

lemma add_docs_lookup:
  "add_docs docs m key =
     (if \<exists>doc \<in> set docs. key \<in> fst ` set (metadata doc)
      then Some ((case m key of None \<Rightarrow> {} | Some seen \<Rightarrow> seen)
                 \<union> {v. \<exists>doc \<in> set docs. (key, v) \<in> set (metadata doc)})
      else m key)"
proof (induction docs arbitrary: m)
  case Nil
  then show ?case by simp
next
  case (Cons doc docs)
  show ?case
    by (simp add: Cons.IH add_items_lookup) (force simp: image_iff split: option.splits)
qed

lemma inspect_metadata_collects:
  assumes "similarity_search vectorstore sample_query sample_size None = Inr sample_docs"
  shows "\<exists>summary. inspect_metadata vectorstore sample_query sample_size = Inr summary
           \<and> (\<forall>key. summary key =
                (if \<exists>doc \<in> set sample_docs. key \<in> fst ` set (metadata doc)
                 then Some {v. \<exists>doc \<in> set sample_docs. (key, v) \<in> set (metadata doc)}
                 else None))"
  using assms by (simp add: inspect_metadata_def add_docs_lookup)

text \<open>
  C8. The first half of the claim does not hold of the code: when the sample search
  raises, \<open>inspect_metadata\<close> raises the same error, where \<open>search_similar_chunks\<close>
  on the same index returns the empty list.
\<close>

theorem inspect_metadata_propagates:
  "inspect_metadata (Some unreachable_index) ''sample'' 100
     = Inl (PyException ''APIConnectionError'' ''Connection error.'')
   \<and> search_similar_chunks (Some unreachable_index) ''sample'' 100 None no_output
     = ([], \<lparr>stdout = [''Error during similarity search: Connection error.''], stderr = []\<rparr>)"
  by (simp add: inspect_metadata_def search_similar_chunks_def similarity_search_def
      unreachable_index_def print_def no_output_def)

end
